theory Spec2Isabelle
  imports Complex_Main "HOL-Library.AList"
begin

section \<open>Python values\<close>

text \<open>
  The services exchange plain Python dictionaries. A dictionary is an association list:
  Python dictionaries keep insertion order, assignment to an existing key keeps the key's
  position, and a new key goes to the end, which is what \<^const>\<open>AList.update\<close> does.
  Python floats are modelled by the real number they denote (exact arithmetic, no
  rounding of intermediate results); the integer literal \<open>0\<close> that the source uses as a
  default for a float is modelled by the float of the same value.
\<close>

datatype pyval =
    PNone
  | PBool bool
  | PInt int
  | PFloat real
  | PStr string
  | PList "pyval list"
  | PDict "(string \<times> pyval) list"

type_synonym pydict = "(string \<times> pyval) list"

text \<open>\<open>d[k]\<close>: the value, or \<open>KeyError\<close>, whose \<open>str()\<close> is the quoted key.\<close>

definition getitem :: "pydict \<Rightarrow> string \<Rightarrow> string + pyval" where
  "getitem d k = (case map_of d k of None \<Rightarrow> Inl ([CHR 0x27] @ k @ [CHR 0x27]) | Some v \<Rightarrow> Inr v)"

text \<open>\<open>d.update(u)\<close>: every pair of \<open>u\<close> is assigned in order, at the top level only.\<close>

definition dict_update :: "pydict \<Rightarrow> pydict \<Rightarrow> pydict" where
  "dict_update d u = fold (\<lambda>(k, v) acc. AList.update k v acc) u d"

text \<open>Truthiness, as \<open>if v:\<close> tests it.\<close>

fun truthy :: "pyval \<Rightarrow> bool" where
  "truthy PNone = False"
| "truthy (PBool b) = b"
| "truthy (PInt i) = (i \<noteq> 0)"
| "truthy (PFloat x) = (x \<noteq> 0)"
| "truthy (PStr s) = (s \<noteq> [])"
| "truthy (PList xs) = (xs \<noteq> [])"
| "truthy (PDict d) = (d \<noteq> [])"

text \<open>\<open>os.path.join(a, b)\<close> on POSIX paths.\<close>

definition os_path_join :: "string \<Rightarrow> string \<Rightarrow> string" where
  "os_path_join a b =
     (if b \<noteq> [] \<and> hd b = CHR ''/'' then b
      else if a = [] \<or> last a = CHR ''/'' then a @ b
      else a @ ''/'' @ b)"

text \<open>
  \<open>str.strip()\<close> on ASCII text: the characters for which \<open>str.isspace\<close> holds are
  removed from both ends.
\<close>

definition isspace :: "char \<Rightarrow> bool" where
  "isspace c = ((of_char c :: nat) \<in> {9, 10, 11, 12, 13, 28, 29, 30, 31, 32})"

definition strip :: "string \<Rightarrow> string" where
  "strip s = rev (dropWhile isspace (rev (dropWhile isspace s)))"

subsection \<open>Numbers as text\<close>

definition digit_char :: "nat \<Rightarrow> char" where
  "digit_char n = ''0123456789'' ! (n mod 10)"

function str_nat :: "nat \<Rightarrow> string" where
  "str_nat n = (if n < 10 then [digit_char n] else str_nat (n div 10) @ [digit_char n])"
  by pat_completeness auto
termination
  by (relation "measure (\<lambda>n. n)") auto

text \<open>\<open>f"{n:06d}"\<close> and its four-digit sibling, for a non-negative \<open>n\<close>.\<close>

definition zero_pad :: "nat \<Rightarrow> nat \<Rightarrow> string" where
  "zero_pad width n = replicate (width - length (str_nat n)) (CHR ''0'') @ str_nat n"

text \<open>
  \<open>round(x, ndigits)\<close> and the \<open>.2f\<close> format both round to the nearest representable
  decimal, a tie going to the even neighbour.
\<close>

definition round_half_even :: "real \<Rightarrow> int" where
  "round_half_even x =
     (let f = \<lfloor>x\<rfloor>; d = x - of_int f
      in if d < 1 / 2 then f
         else if 1 / 2 < d then f + 1
         else if even f then f else f + 1)"

definition py_round :: "real \<Rightarrow> nat \<Rightarrow> real" where
  "py_round x ndigits = of_int (round_half_even (x * 10 ^ ndigits)) / 10 ^ ndigits"

definition format_2f :: "real \<Rightarrow> string" where
  "format_2f x =
     (let n = nat (round_half_even (\<bar>x\<bar> * 100))
      in (if x < 0 then ''-'' else []) @ str_nat (n div 100) @ ''.''
           @ [digit_char (n div 10), digit_char n])"

section \<open>ConfidenceScorer (VideoProcessingService)\<close>

text \<open>
  \<^verbatim>\<open>
  def convert_confidence_to_percentage(self, log_prob):
      if log_prob >= 0:
          return 100.0
      percentage = max(0, min(100, 100 * (1 + log_prob / 2.5)))
      return round(percentage, 1)
  \<close>
\<close>

definition convert_confidence_to_percentage :: "real \<Rightarrow> real" where
  "convert_confidence_to_percentage log_prob =
     (if log_prob \<ge> 0 then 100.0
      else py_round (max 0 (min 100 (100 * (1 + log_prob / 2.5)))) 1)"

definition get_confidence_quality :: "real \<Rightarrow> string" where
  "get_confidence_quality log_prob =
     (if log_prob \<ge> - 0.1 then ''Excellent''
      else if log_prob \<ge> - 0.3 then ''Good''
      else if log_prob \<ge> - 0.5 then ''Fair''
      else if log_prob \<ge> - 1.0 then ''Poor''
      else ''Very Poor'')"



section \<open>Speech stage (VideoProcessingService.extract_and_transcribe_speech)\<close>

text \<open>
  What the stage gets from outside: the audio extraction (moviepy) either raises, with a
  message, or writes the wave file; loading the model and transcribing (whisper) either
  raises or returns the segments. A segment has \<open>start\<close>, \<open>end\<close>, \<open>text\<close> and,
  usually, \<open>avg_logprob\<close>.
\<close>

record segment =
  seg_start :: real
  seg_end :: real
  seg_text :: string
  avg_logprob :: "real option"

record speech_env =
  write_audiofile :: "string option"
  transcribe :: "string + segment list"

definition BASE_DIR :: string where
  "BASE_DIR = ''/home/farkhane/mini-rag/src/assets''"

definition FRAMES_DIR :: string where
  "FRAMES_DIR = BASE_DIR @ ''/frames''"

definition AUDIO_DIR :: string where
  "AUDIO_DIR = BASE_DIR @ ''/audio''"

text \<open>\<open>confidence_raw = segment.get('avg_logprob', 0)\<close>\<close>

definition confidence_raw :: "segment \<Rightarrow> real" where
  "confidence_raw seg = (case avg_logprob seg of None \<Rightarrow> 0 | Some v \<Rightarrow> v)"

text \<open>The dictionary appended to \<open>transcription_segments\<close> for one segment.\<close>

definition transcription_segment :: "segment \<Rightarrow> pyval" where
  "transcription_segment seg =
     PDict [(''start_time'', PFloat (seg_start seg)),
            (''end_time'', PFloat (seg_end seg)),
            (''text'', PStr (strip (seg_text seg))),
            (''confidence'', PFloat (confidence_raw seg)),
            (''confidence_percentage'',
               PFloat (convert_confidence_to_percentage (confidence_raw seg)))]"

definition formatted_line :: "segment \<Rightarrow> pyval" where
  "formatted_line seg =
     PStr (''['' @ format_2f (seg_start seg) @ ''s - '' @ format_2f (seg_end seg) @ ''s]: ''
             @ strip (seg_text seg))"

text \<open>The result of a stage that raised: \<open>{"success": False, "error": str(e)}\<close>.\<close>

definition stage_failure :: "string \<Rightarrow> pydict" where
  "stage_failure e = [(''success'', PBool False), (''error'', PStr e)]"

definition extract_and_transcribe_speech :: "speech_env \<Rightarrow> string \<Rightarrow> pydict" where
  "extract_and_transcribe_speech env video_id =
     (let audio_filename = ''video_'' @ video_id @ ''_audio.wav'';
          audio_path = os_path_join AUDIO_DIR audio_filename
      in case write_audiofile env of
           Some e \<Rightarrow> stage_failure e
         | None \<Rightarrow>
             (case transcribe env of
                Inl e \<Rightarrow> stage_failure e
              | Inr segments \<Rightarrow>
                  (let transcription_segments = map transcription_segment segments;
                       formatted_transcription = map formatted_line segments;
                       confidence_scores = map confidence_raw segments;
                       overall_confidence_raw =
                         (if confidence_scores \<noteq> []
                          then sum_list confidence_scores / real (length confidence_scores)
                          else 0);
                       overall_confidence_percentage =
                         convert_confidence_to_percentage overall_confidence_raw;
                       overall_confidence_quality = get_confidence_quality overall_confidence_raw
                   in [(''audio_file_path'', PStr audio_path),
                       (''transcription_segments'', PList transcription_segments),
                       (''formatted_transcription'', PList formatted_transcription),
                       (''total_segments'', PInt (int (length transcription_segments))),
                       (''total_duration'',
                          PFloat (if segments \<noteq> [] then seg_end (last segments) else 0)),
                       (''overall_confidence'', PFloat overall_confidence_raw),
                       (''overall_confidence_percentage'', PFloat overall_confidence_percentage),
                       (''overall_confidence_quality'', PStr overall_confidence_quality),
                       (''success'', PBool True)])))"

section \<open>Face stage (VideoProcessingService.extract_faces)\<close>

text \<open>
  A capture yields its decodable frames one by one until \<open>cap.read()\<close> reports the end
  of the stream; \<open>CAP_PROP_FRAME_COUNT\<close> is what the container announces. A frame is
  opaque (\<open>'f\<close>); the detector (grey conversion and \<open>detectMultiScale\<close>) returns the
  boxes \<open>(x, y, w, h)\<close> of a frame or raises. Whatever raises before the loop (the import,
  the classifier, \<open>makedirs\<close>) is \<open>cap_setup_error\<close>.
\<close>

type_synonym box = "int \<times> int \<times> int \<times> int"

record 'f capture =
  cap_setup_error :: "string option"
  cap_opened :: bool
  cap_frame_count :: int
  cap_frames :: "'f list"

text \<open>What \<open>cv2.imwrite\<close> is given: a whole frame, or the slice \<open>frame[y:y+h, x:x+w]\<close>.\<close>

datatype 'f image_data = Full 'f | Cropped 'f box

text \<open>
  The loop's variables, the files written so far, and the indices of the frames handed
  to the detector so far (kept to state which frames the loop inspects; the code has no
  such variable).
\<close>

record 'f faces_state =
  frames_processed :: nat
  faces_found :: nat
  written :: "(string \<times> 'f image_data) list"
  detector_calls :: "nat list"

definition frame_interval :: nat where
  "frame_interval = 30"

definition save_faces :: "string \<Rightarrow> nat \<Rightarrow> 'f \<Rightarrow> box list \<Rightarrow> (string \<times> 'f image_data) list" where
  "save_faces video_frames_dir n frame faces =
     (os_path_join video_frames_dir (''frame_'' @ zero_pad 6 n @ ''.jpg''), Full frame)
     # map (\<lambda>(i, b). (os_path_join video_frames_dir
                           (''face_'' @ zero_pad 6 n @ ''_'' @ str_nat i @ ''.jpg''),
                         Cropped frame b))
           (enumerate 0 faces)"

fun faces_loop ::
  "('f \<Rightarrow> string + box list) \<Rightarrow> string \<Rightarrow> 'f list \<Rightarrow> 'f faces_state
     \<Rightarrow> (string \<times> 'f faces_state) + 'f faces_state" where
  "faces_loop detect dir [] st = Inr st"
| "faces_loop detect dir (frame # rest) st =
     (if frames_processed st mod frame_interval = 0 then
        (case detect frame of
           Inl e \<Rightarrow> Inl (e, st\<lparr>detector_calls := detector_calls st @ [frames_processed st]\<rparr>)
         | Inr faces \<Rightarrow>
             (let st1 = st\<lparr>detector_calls := detector_calls st @ [frames_processed st]\<rparr>;
                  st2 = (if length faces > 0
                         then st1\<lparr>faces_found := faces_found st1 + length faces,
                                  written := written st1
                                    @ save_faces dir (frames_processed st1) frame faces\<rparr>
                         else st1)
              in faces_loop detect dir rest
                   (st2\<lparr>frames_processed := frames_processed st2 + 1\<rparr>)))
      else faces_loop detect dir rest (st\<lparr>frames_processed := frames_processed st + 1\<rparr>))"

definition faces_init :: "'f faces_state" where
  "faces_init = \<lparr>frames_processed = 0, faces_found = 0, written = [], detector_calls = []\<rparr>"

text \<open>The stage returns its result dictionary; the files it wrote stay (no rollback).\<close>

definition extract_faces ::
  "'f capture \<Rightarrow> ('f \<Rightarrow> string + box list) \<Rightarrow> string \<Rightarrow> pydict \<times> 'f faces_state" where
  "extract_faces cap detect video_id =
     (case cap_setup_error cap of
        Some e \<Rightarrow> (stage_failure e, faces_init)
      | None \<Rightarrow>
          (let total_frames = cap_frame_count cap;
               video_frames_dir = os_path_join FRAMES_DIR video_id
           in case faces_loop detect video_frames_dir (cap_frames cap) faces_init of
                Inl (e, st) \<Rightarrow> (stage_failure e, st)
              | Inr st \<Rightarrow>
                  ([(''total_frames'', PInt total_frames),
                    (''processed_frames'', PInt (int (frames_processed st))),
                    (''faces_detected'', PInt (int (faces_found st))),
                    (''frames_dir'', PStr video_frames_dir),
                    (''success'', PBool True)], st)))"

text \<open>
  The scenario of the specification: a video of 90 decodable frames, a frame being its
  own index here, in which the detector finds one face in frame 0, none in frame 30 and
  two in frame 60.
\<close>

definition scenario_capture :: "nat capture" where
  "scenario_capture =
     \<lparr>cap_setup_error = None, cap_opened = True, cap_frame_count = 90,
      cap_frames = [0..<90]\<rparr>"

definition scenario_detect :: "nat \<Rightarrow> string + box list" where
  "scenario_detect frame =
     (if frame = 0 then Inr [(100, 80, 64, 64)]
      else if frame = 60 then Inr [(40, 50, 60, 60), (300, 120, 72, 72)]
      else Inr [])"

section \<open>VideoFaceExtractorService\<close>

subsection \<open>extract\_face: the crop with its margin\<close>




subsection \<open>extract\_frames: the sampler with its interval\<close>

record 'f frames_state =
  frame_count :: nat
  saved_count :: nat
  frame_files :: "(string \<times> 'f) list"
  frame_docs :: "pydict list"

text \<open>
  \<open>frame_count % frame_interval\<close> raises \<open>ZeroDivisionError\<close> for the interval 0; for
  any other interval Python's \<open>%\<close> on integers is \<open>mod\<close>. \<open>utcnow\<close> is the clock, read
  when the frame is stored.
\<close>

fun frames_loop ::
  "string \<Rightarrow> string \<Rightarrow> int \<Rightarrow> (nat \<Rightarrow> string) \<Rightarrow> 'f list \<Rightarrow> 'f frames_state
     \<Rightarrow> (string \<times> 'f frames_state) + 'f frames_state" where
  "frames_loop video_id frames_dir interval utcnow [] st = Inr st"
| "frames_loop video_id frames_dir interval utcnow (frame # rest) st =
     (if interval = 0 then Inl (''ZeroDivisionError'', st)
      else if int (frame_count st) mod interval = 0 then
        (let filename = os_path_join frames_dir
                          (''frame_'' @ zero_pad 4 (saved_count st) @ ''.jpg'');
             doc = [(''video_id'', PStr video_id),
                    (''frame_number'', PInt (int (frame_count st))),
                    (''frame_path'', PStr filename),
                    (''face_path'', PNone),
                    (''face_found'', PBool False),
                    (''created_at'', PStr (utcnow (frame_count st)))]
         in frames_loop video_id frames_dir interval utcnow rest
              (st\<lparr>frame_files := frame_files st @ [(filename, frame)],
                  frame_docs := frame_docs st @ [doc],
                  saved_count := saved_count st + 1,
                  frame_count := frame_count st + 1\<rparr>))
      else frames_loop video_id frames_dir interval utcnow rest
             (st\<lparr>frame_count := frame_count st + 1\<rparr>))"

definition frames_init :: "'f frames_state" where
  "frames_init = \<lparr>frame_count = 0, saved_count = 0, frame_files = [], frame_docs = []\<rparr>"

text \<open>
  The function returns \<open>saved_count\<close>, or 0 when anything raised; what was written before
  stays. The loop runs \<open>while cap.isOpened()\<close>.
\<close>

definition extract_frames ::
  "string \<Rightarrow> 'f capture \<Rightarrow> string \<Rightarrow> (nat \<Rightarrow> string) \<Rightarrow> int \<Rightarrow> int \<times> 'f frames_state" where
  "extract_frames assets_dir cap video_id utcnow interval =
     (case cap_setup_error cap of
        Some e \<Rightarrow> (0, frames_init)
      | None \<Rightarrow>
          (let frames_dir = os_path_join (os_path_join assets_dir (''video_'' @ video_id))
                              ''frames''
           in if cap_opened cap then
                (case frames_loop video_id frames_dir interval utcnow (cap_frames cap) frames_init of
                   Inl (e, st) \<Rightarrow> (0, st)
                 | Inr st \<Rightarrow> (int (saved_count st), st))
              else (0, frames_init)))"

section \<open>Pitch analysis (SpeechTranscriptionService)\<close>

definition classify_emotion :: "real \<Rightarrow> string" where
  "classify_emotion avg_pitch =
     (if avg_pitch < 140 then ''Calm / Deep Voice''
      else if avg_pitch < 200 then ''Neutral / Confident''
      else if avg_pitch < 250 then ''Animated / Engaged''
      else ''Excited / High-pitched / Nervous'')"

definition np_mean :: "real list \<Rightarrow> real" where
  "np_mean xs = sum_list xs / real (length xs)"

definition np_std :: "real list \<Rightarrow> real" where
  "np_std xs = sqrt (np_mean (map (\<lambda>x. (x - np_mean xs)\<^sup>2) xs))"

text \<open>
  The pitch extractor (parselmouth) either raises, with a message, or returns the
  frequency of every sample of the contour, 0 for an unvoiced one. The body of the
  \<open>try\<close> block:
\<close>

definition analyze_pitch_body :: "(string + real list) \<Rightarrow> string + pydict" where
  "analyze_pitch_body to_pitch =
     (case to_pitch of
        Inl e \<Rightarrow> Inl e
      | Inr pitch_values \<Rightarrow>
          (let voiced_pitch = filter (\<lambda>v. v > 0) pitch_values
           in if length voiced_pitch = 0 then
                Inr [(''average_pitch'', PInt 0),
                     (''min_pitch'', PInt 0),
                     (''max_pitch'', PInt 0),
                     (''pitch_std'', PInt 0),
                     (''emotion'', PStr ''Unknown - No voice detected''),
                     (''pitch_analysis'', PStr ''No voiced segments detected'')]
              else
                (let avg_pitch = np_mean voiced_pitch;
                     min_pitch = Min (set voiced_pitch);
                     max_pitch = Max (set voiced_pitch);
                     pitch_std = np_std voiced_pitch;
                     emotion = classify_emotion avg_pitch
                 in Inr [(''average_pitch'', PFloat (py_round avg_pitch 2)),
                         (''min_pitch'', PFloat (py_round min_pitch 2)),
                         (''max_pitch'', PFloat (py_round max_pitch 2)),
                         (''pitch_std'', PFloat (py_round pitch_std 2)),
                         (''emotion'', PStr emotion),
                         (''pitch_analysis'',
                            PStr (''Average pitch: '' @ format_2f avg_pitch @ '' Hz - ''
                                    @ emotion))])))"

text \<open>
  The function: the body under \<open>except Exception\<close>. \<open>Inl\<close> would be an exception that
  reaches the caller.
\<close>

definition analyze_pitch :: "(string + real list) \<Rightarrow> string + pydict" where
  "analyze_pitch to_pitch =
     (case analyze_pitch_body to_pitch of
        Inr result \<Rightarrow> Inr result
      | Inl e \<Rightarrow>
          Inr [(''average_pitch'', PInt 0),
               (''min_pitch'', PInt 0),
               (''max_pitch'', PInt 0),
               (''pitch_std'', PInt 0),
               (''emotion'', PStr ''Error in analysis''),
               (''pitch_analysis'', PStr (''Error: '' @ e))])"

text \<open>
  The parent: \<open>process_video_audio\<close>. Audio extraction returns the path or raises;
  \<open>transcribe_with_timestamps\<close> returns its dictionary or raises; both are given by their
  outcome. Whatever raises ends the pipeline with \<open>result["error"] = str(e)\<close>, the
  flags set so far kept.
\<close>

definition process_video_audio ::
  "(string + string) \<Rightarrow> (string + pydict) \<Rightarrow> (string + real list) \<Rightarrow> string \<Rightarrow> pydict" where
  "process_video_audio extract_audio transcribe_with_timestamps to_pitch video_id =
     (let result = [(''video_id'', PStr video_id),
                    (''audio_extracted'', PBool False),
                    (''transcription_completed'', PBool False),
                    (''pitch_analysis_completed'', PBool False),
                    (''error'', PNone)]
      in case extract_audio of
           Inl e \<Rightarrow> AList.update ''error'' (PStr e) result
         | Inr audio_path \<Rightarrow>
             (let result1 = AList.update ''audio_extracted'' (PBool True)
                              (AList.update ''audio_path'' (PStr audio_path) result)
              in case transcribe_with_timestamps of
                   Inl e \<Rightarrow> AList.update ''error'' (PStr e) result1
                 | Inr transcription_result \<Rightarrow>
                     (let result2 = AList.update ''transcription_completed'' (PBool True)
                                      (dict_update result1 transcription_result)
                      in case analyze_pitch to_pitch of
                           Inl e \<Rightarrow> AList.update ''error'' (PStr e) result2
                         | Inr pitch_result \<Rightarrow>
                             AList.update ''pitch_analysis_completed'' (PBool True)
                               (dict_update result2 pitch_result))))"

section \<open>The record store (complete\_video\_api, in-memory storage)\<close>

text \<open>
  \<open>complete_video_api.py\<close> keeps the records in MongoDB when it is connected and in the
  dictionary \<open>video_database\<close> otherwise; the model is the second store, the one whose
  code is in the repository. \<open>CombinedVideoController\<close> runs the same pipeline, line for
  line, against \<open>CombinedVideoModel\<close>, a class that is not among the sources.
\<close>

type_synonym video_database = "string \<rightharpoonup> pydict"


definition get_video_from_db :: "video_database \<Rightarrow> string \<Rightarrow> pydict option" where
  "get_video_from_db db video_id = db video_id"

text \<open>
  \<^verbatim>\<open>
  if video_id in video_database:
      video_database[video_id].update(update_data)
      return True
  return False
  \<close>
\<close>

definition update_video_in_db :: "video_database \<Rightarrow> string \<Rightarrow> pydict \<Rightarrow> video_database \<times> bool" where
  "update_video_in_db db video_id update_data =
     (case db video_id of
        Some video_data \<Rightarrow> (db(video_id \<mapsto> dict_update video_data update_data), True)
      | None \<Rightarrow> (db, False))"

section \<open>Upload\<close>

definition video_record :: "string \<Rightarrow> string \<Rightarrow> string \<Rightarrow> int \<Rightarrow> string \<Rightarrow> pydict" where
  "video_record video_id filename file_path file_size upload_time =
     [(''video_id'', PStr video_id),
      (''filename'', PStr filename),
      (''file_path'', PStr file_path),
      (''file_size'', PInt file_size),
      (''upload_time'', PStr upload_time),
      (''status'', PStr ''uploaded''),
      (''face_extraction'', PDict [(''status'', PStr ''queued'')]),
      (''speech_transcription'', PDict [(''status'', PStr ''queued'')])]"


section \<open>The pipeline (process\_video\_complete)\<close>

text \<open>
  What a run reads from outside: the capture behind a path, the detector, the audio and
  transcription behind a path, and the clock at the four places where the code reads it.
\<close>

record 'f world =
  video_capture :: "string \<Rightarrow> 'f capture"
  detectMultiScale :: "'f \<Rightarrow> string + box list"
  speech_of :: "string \<Rightarrow> speech_env"

record clock =
  t_face :: string
  t_speech :: string
  t_final :: string
  t_error :: string

text \<open>\<open>v[k]\<close> on a value: \<open>KeyError\<close> on a dictionary without \<open>k\<close>, \<open>TypeError\<close> on anything else.\<close>

definition subscript :: "pyval \<Rightarrow> string \<Rightarrow> string + pyval" where
  "subscript v k = (case v of PDict d \<Rightarrow> getitem d k | _ \<Rightarrow> Inl ''TypeError'')"

definition with_item :: "pydict \<Rightarrow> string \<Rightarrow> (pyval \<Rightarrow> string + 'a) \<Rightarrow> string + 'a" where
  "with_item d k f = (case getitem d k of Inl e \<Rightarrow> Inl e | Inr v \<Rightarrow> f v)"

text \<open>Step 1: \<open># Update status to processing\<close>.\<close>

definition start_processing :: "video_database \<Rightarrow> string \<Rightarrow> video_database" where
  "start_processing db video_id =
     fst (update_video_in_db db video_id
            [(''status'', PStr ''processing''),
             (''face_extraction.status'', PStr ''processing''),
             (''speech_transcription.status'', PStr ''processing'')])"

text \<open>Step 2: the update built from the face stage's result.\<close>

definition face_data :: "pydict \<Rightarrow> string \<Rightarrow> string + pydict" where
  "face_data face_result now =
     with_item face_result ''success'' (\<lambda>success.
       if truthy success then
         with_item face_result ''total_frames'' (\<lambda>total_frames.
         with_item face_result ''processed_frames'' (\<lambda>processed_frames.
         with_item face_result ''faces_detected'' (\<lambda>faces_detected.
         with_item face_result ''frames_dir'' (\<lambda>frames_dir.
           Inr [(''face_extraction'',
                 PDict [(''status'', PStr ''completed''),
                        (''total_frames'', total_frames),
                        (''processed_frames'', processed_frames),
                        (''faces_detected'', faces_detected),
                        (''frames_dir'', frames_dir),
                        (''completed_at'', PStr now)])]))))
       else
         with_item face_result ''error'' (\<lambda>error.
           Inr [(''face_extraction'',
                 PDict [(''status'', PStr ''failed''),
                        (''error'', error),
                        (''failed_at'', PStr now)])]))"

text \<open>Step 3: the update built from the speech stage's result.\<close>

definition speech_data :: "pydict \<Rightarrow> string \<Rightarrow> string + pydict" where
  "speech_data speech_result now =
     with_item speech_result ''success'' (\<lambda>success.
       if truthy success then
         with_item speech_result ''audio_file_path'' (\<lambda>audio_file_path.
         with_item speech_result ''transcription_segments'' (\<lambda>transcription_segments.
         with_item speech_result ''formatted_transcription'' (\<lambda>formatted_transcription.
         with_item speech_result ''total_segments'' (\<lambda>total_segments.
         with_item speech_result ''total_duration'' (\<lambda>total_duration.
         with_item speech_result ''overall_confidence'' (\<lambda>overall_confidence.
         with_item speech_result ''overall_confidence_percentage'' (\<lambda>overall_confidence_percentage.
         with_item speech_result ''overall_confidence_quality'' (\<lambda>overall_confidence_quality.
           Inr [(''speech_transcription'',
                 PDict [(''status'', PStr ''completed''),
                        (''audio_file_path'', audio_file_path),
                        (''transcription_segments'', transcription_segments),
                        (''formatted_transcription'', formatted_transcription),
                        (''total_segments'', total_segments),
                        (''total_duration'', total_duration),
                        (''overall_confidence'', overall_confidence),
                        (''overall_confidence_percentage'', overall_confidence_percentage),
                        (''overall_confidence_quality'', overall_confidence_quality),
                        (''completed_at'', PStr now)])]))))))))
       else
         with_item speech_result ''error'' (\<lambda>error.
           Inr [(''speech_transcription'',
                 PDict [(''status'', PStr ''failed''),
                        (''error'', error),
                        (''failed_at'', PStr now)])]))"

text \<open>
  A step of the \<open>try\<close> block either raises, with the message and the store as it is at
  that moment, or leaves a new store.
\<close>

type_synonym step_result = "(string \<times> video_database) + video_database"

definition persist_stage :: "video_database \<Rightarrow> string \<Rightarrow> (string + pydict) \<Rightarrow> step_result" where
  "persist_stage db video_id stage_data =
     (case stage_data of
        Inl e \<Rightarrow> Inl (e, db)
      | Inr update_data \<Rightarrow> Inr (fst (update_video_in_db db video_id update_data)))"

text \<open>
  Step 4: \<open># Update overall status\<close>. The record is read back and the two stage
  statuses decide the final update.
\<close>

definition final_update :: "pyval \<Rightarrow> pyval \<Rightarrow> string \<Rightarrow> pydict" where
  "final_update face_status speech_status now =
     (if face_status = PStr ''completed'' \<and> speech_status = PStr ''completed'' then
        [(''status'', PStr ''completed''), (''completed_at'', PStr now)]
      else if face_status = PStr ''failed'' \<and> speech_status = PStr ''failed'' then
        [(''status'', PStr ''failed''), (''failed_at'', PStr now)]
      else
        [(''status'', PStr ''partial_success''), (''partial_completed_at'', PStr now)])"

definition update_overall_status :: "video_database \<Rightarrow> string \<Rightarrow> string \<Rightarrow> step_result" where
  "update_overall_status db video_id now =
     (case get_video_from_db db video_id of
        None \<Rightarrow> Inr db
      | Some video_data \<Rightarrow>
          if \<not> truthy (PDict video_data) then Inr db
          else
            (case with_item video_data ''face_extraction'' (\<lambda>v. subscript v ''status'') of
               Inl e \<Rightarrow> Inl (e, db)
             | Inr face_status \<Rightarrow>
                 (case with_item video_data ''speech_transcription''
                         (\<lambda>v. subscript v ''status'') of
                    Inl e \<Rightarrow> Inl (e, db)
                  | Inr speech_status \<Rightarrow>
                      Inr (fst (update_video_in_db db video_id
                                  (final_update face_status speech_status now))))))"

text \<open>The body of the \<open>try\<close> block.\<close>

definition process_video_complete_body ::
  "'f world \<Rightarrow> clock \<Rightarrow> video_database \<Rightarrow> string \<Rightarrow> string \<Rightarrow> step_result" where
  "process_video_complete_body w clk db video_id file_path =
     (let db1 = start_processing db video_id;
          face_result = fst (extract_faces (video_capture w file_path) (detectMultiScale w)
                               video_id)
      in case persist_stage db1 video_id (face_data face_result (t_face clk)) of
           Inl raised \<Rightarrow> Inl raised
         | Inr db2 \<Rightarrow>
             (let speech_result = extract_and_transcribe_speech (speech_of w file_path) video_id
              in case persist_stage db2 video_id (speech_data speech_result (t_speech clk)) of
                   Inl raised \<Rightarrow> Inl raised
                 | Inr db3 \<Rightarrow> update_overall_status db3 video_id (t_final clk)))"

text \<open>The \<open>except Exception\<close> handler of the pipeline.\<close>

definition error_update :: "string \<Rightarrow> string \<Rightarrow> pydict" where
  "error_update e now =
     [(''status'', PStr ''failed''), (''error'', PStr e), (''failed_at'', PStr now)]"

text \<open>
  The background job. \<open>Inl\<close> would be an exception that reaches the task runner; the
  in-memory store raises nothing, so the handler's own update cannot.
\<close>

definition process_video_complete ::
  "'f world \<Rightarrow> clock \<Rightarrow> video_database \<Rightarrow> string \<Rightarrow> string \<Rightarrow> string + video_database" where
  "process_video_complete w clk db video_id file_path =
     (case process_video_complete_body w clk db video_id file_path of
        Inr db' \<Rightarrow> Inr db'
      | Inl (e, db') \<Rightarrow>
          Inr (fst (update_video_in_db db' video_id (error_update e (t_error clk)))))"

text \<open>
  The stores that a run leaves behind one after the other, each the result of one
  update: after step 1, after the face stage, after the speech stage, after step 4.
\<close>

definition persisted_states ::
  "'f world \<Rightarrow> clock \<Rightarrow> video_database \<Rightarrow> string \<Rightarrow> string \<Rightarrow> video_database list" where
  "persisted_states w clk db video_id file_path =
     (let db1 = start_processing db video_id;
          face_result = fst (extract_faces (video_capture w file_path) (detectMultiScale w)
                               video_id);
          failed = (\<lambda>raised. case raised of (e, d) \<Rightarrow>
                      [fst (update_video_in_db d video_id (error_update e (t_error clk)))])
      in db1 #
         (case persist_stage db1 video_id (face_data face_result (t_face clk)) of
            Inl raised \<Rightarrow> failed raised
          | Inr db2 \<Rightarrow>
              db2 #
              (let speech_result = extract_and_transcribe_speech (speech_of w file_path) video_id
               in case persist_stage db2 video_id (speech_data speech_result (t_speech clk)) of
                    Inl raised \<Rightarrow> failed raised
                  | Inr db3 \<Rightarrow>
                      db3 #
                      (case update_overall_status db3 video_id (t_final clk) of
                         Inl raised \<Rightarrow> failed raised
                       | Inr db4 \<Rightarrow> [db4]))))"

text \<open>What a poll reads from a record.\<close>

definition overall_status :: "video_database \<Rightarrow> string \<Rightarrow> pyval option" where
  "overall_status db video_id =
     (case db video_id of None \<Rightarrow> None | Some video_data \<Rightarrow> map_of video_data ''status'')"

definition stage_of :: "video_database \<Rightarrow> string \<Rightarrow> string \<Rightarrow> pydict option" where
  "stage_of db video_id stage =
     (case db video_id of
        None \<Rightarrow> None
      | Some video_data \<Rightarrow>
          (case map_of video_data stage of Some (PDict d) \<Rightarrow> Some d | _ \<Rightarrow> None))"

definition stage_status :: "video_database \<Rightarrow> string \<Rightarrow> string \<Rightarrow> pyval option" where
  "stage_status db video_id stage =
     (case stage_of db video_id stage of None \<Rightarrow> None | Some d \<Rightarrow> map_of d ''status'')"

text \<open>
  The aggregation rule in the specification's words: both completed gives completed,
  both failed gives failed, any other combination gives partial success.
\<close>

definition aggregate :: "pyval \<Rightarrow> pyval \<Rightarrow> pyval" where
  "aggregate face_status speech_status =
     (if face_status = PStr ''completed'' \<and> speech_status = PStr ''completed''
        then PStr ''completed''
      else if face_status = PStr ''failed'' \<and> speech_status = PStr ''failed''
        then PStr ''failed''
      else PStr ''partial_success'')"

section \<open>Concrete stores and worlds\<close>

text \<open>A record whose two stages carry the given statuses, as step 4 may find it.\<close>

definition truth_table_db :: "string \<Rightarrow> string \<Rightarrow> video_database" where
  "truth_table_db face_status speech_status =
     Map.empty(''v1'' \<mapsto>
       [(''video_id'', PStr ''v1''),
        (''status'', PStr ''processing''),
        (''face_extraction'', PDict [(''status'', PStr face_status)]),
        (''speech_transcription'', PDict [(''status'', PStr speech_status)])])"

text \<open>
  The video of the face scenario, with three transcribed segments; the same video when
  the audio extraction raises; a clock; and the store right after the upload.
\<close>

definition scenario_segments :: "segment list" where
  "scenario_segments =
     [\<lparr>seg_start = 0, seg_end = 2.5, seg_text = '' Hello there.'',
       avg_logprob = Some (- 0.05)\<rparr>,
      \<lparr>seg_start = 2.5, seg_end = 4, seg_text = '' How are you?'',
       avg_logprob = Some (- 0.4)\<rparr>,
      \<lparr>seg_start = 4, seg_end = 7.25, seg_text = '' Fine.'',
       avg_logprob = Some (- 0.9)\<rparr>]"


definition scenario_world_no_audio :: "nat world" where
  "scenario_world_no_audio =
     \<lparr>video_capture = (\<lambda>path. scenario_capture),
      detectMultiScale = scenario_detect,
      speech_of = (\<lambda>path. \<lparr>write_audiofile = Some ''no audio track'',
                            transcribe = Inr scenario_segments\<rparr>)\<rparr>"

definition scenario_clock :: clock where
  "scenario_clock =
     \<lparr>t_face = ''12:00:05'', t_speech = ''12:00:40'', t_final = ''12:00:41'',
      t_error = ''12:00:42''\<rparr>"

definition scenario_db :: video_database where
  "scenario_db =
     Map.empty(''v1'' \<mapsto>
       video_record ''v1'' ''clip.mp4'' ''/videos/v1.mp4'' 1048576 ''12:00:00'')"

section \<open>Properties of the confidence scorer\<close>
















section \<open>Properties of the speech stage\<close>

text \<open>The result of the stage when nothing raises.\<close>

lemma speech_success_result:
  "extract_and_transcribe_speech \<lparr>write_audiofile = None, transcribe = Inr segments\<rparr> video_id =
     [(''audio_file_path'', PStr (os_path_join AUDIO_DIR (''video_'' @ video_id @ ''_audio.wav''))),
      (''transcription_segments'', PList (map transcription_segment segments)),
      (''formatted_transcription'', PList (map formatted_line segments)),
      (''total_segments'', PInt (int (length segments))),
      (''total_duration'', PFloat (if segments \<noteq> [] then seg_end (last segments) else 0)),
      (''overall_confidence'',
         PFloat (if segments \<noteq> []
                 then sum_list (map confidence_raw segments) / real (length segments) else 0)),
      (''overall_confidence_percentage'',
         PFloat (convert_confidence_to_percentage
                   (if segments \<noteq> []
                    then sum_list (map confidence_raw segments) / real (length segments) else 0))),
      (''overall_confidence_quality'',
         PStr (get_confidence_quality
                 (if segments \<noteq> []
                  then sum_list (map confidence_raw segments) / real (length segments) else 0))),
      (''success'', PBool True)]"
  unfolding extract_and_transcribe_speech_def Let_def by simp


text \<open>
  Claim C10. A segment that comes without \<open>avg_logprob\<close> gets the raw log-probability
  0: it is recorded with confidence 0 and confidence percentage 100.0, and it adds 0 to
  the sum from which the overall mean is taken (while it counts in the number of
  segments).
\<close>

theorem missing_avg_logprob_defaults:
  "confidence_raw (s\<lparr>avg_logprob := None\<rparr>) = 0
   \<and> transcription_segment (s\<lparr>avg_logprob := None\<rparr>)
       = PDict [(''start_time'', PFloat (seg_start s)),
                (''end_time'', PFloat (seg_end s)),
                (''text'', PStr (strip (seg_text s))),
                (''confidence'', PFloat 0),
                (''confidence_percentage'', PFloat 100.0)]
   \<and> (let result = extract_and_transcribe_speech
                      \<lparr>write_audiofile = None,
                       transcribe = Inr (before @ [s\<lparr>avg_logprob := None\<rparr>] @ after)\<rparr>
                      video_id
       in map_of result ''transcription_segments''
            = Some (PList (map transcription_segment before
                           @ [transcription_segment (s\<lparr>avg_logprob := None\<rparr>)]
                           @ map transcription_segment after))
          \<and> map_of result ''overall_confidence''
              = Some (PFloat ((sum_list (map confidence_raw before) + 0
                               + sum_list (map confidence_raw after))
                              / real (length before + 1 + length after))))"
  unfolding speech_success_result Let_def
  by (simp add: confidence_raw_def transcription_segment_def
        convert_confidence_to_percentage_def)

section \<open>Properties of the frame sampler\<close>

text \<open>The multiples of \<open>k\<close> below \<open>n\<close>, and how many there are.\<close>

lemma lt_ceil_div:
  fixes k :: nat
  assumes "0 < k"
  shows "(j < (n + k - 1) div k) = (j * k < n)"
proof -
  have "(j < (n + k - 1) div k) = (Suc j \<le> (n + k - 1) div k)" by auto
  also have "\<dots> = (Suc j * k \<le> n + k - 1)"
    using assms by (simp add: less_eq_div_iff_mult_less_eq)
  also have "\<dots> = (j * k < n)" using assms by auto
  finally show ?thesis .
qed

lemma multiples_below:
  fixes k :: nat
  assumes "0 < k"
  shows "filter (\<lambda>i. i mod k = 0) [0..<n] = map (\<lambda>j. j * k) [0..<(n + k - 1) div k]"
proof (rule sorted_distinct_set_unique)
  show "sorted (filter (\<lambda>i. i mod k = 0) [0..<n])" by (simp add: sorted_wrt_filter)
  show "distinct (filter (\<lambda>i. i mod k = 0) [0..<n])" by simp
  have "sorted_wrt (\<le>) [0..<(n + k - 1) div k]" by simp
  then have "sorted_wrt (\<lambda>x y. x * k \<le> y * k) [0..<(n + k - 1) div k]"
    by (rule sorted_wrt_mono_rel [rotated]) simp
  then show "sorted (map (\<lambda>j. j * k) [0..<(n + k - 1) div k])"
    by (simp add: sorted_map)
  show "distinct (map (\<lambda>j. j * k) [0..<(n + k - 1) div k])"
    using assms by (simp add: distinct_map inj_on_def)
  show "set (filter (\<lambda>i. i mod k = 0) [0..<n]) = set (map (\<lambda>j. j * k) [0..<(n + k - 1) div k])"
  proof (intro set_eqI iffI)
    fix x assume "x \<in> set (filter (\<lambda>i. i mod k = 0) [0..<n])"
    then have x: "x < n" "x mod k = 0" by auto
    then have e: "x = (x div k) * k" by auto
    then have "x div k < (n + k - 1) div k" using x lt_ceil_div [OF assms, of "x div k" n] by simp
    then show "x \<in> set (map (\<lambda>j. j * k) [0..<(n + k - 1) div k])" using e by force
  next
    fix x assume "x \<in> set (map (\<lambda>j. j * k) [0..<(n + k - 1) div k])"
    then obtain j where j: "j < (n + k - 1) div k" "x = j * k" by auto
    then have "x < n" using lt_ceil_div [OF assms, of j n] by simp
    then show "x \<in> set (filter (\<lambda>i. i mod k = 0) [0..<n])" using j by simp
  qed
qed

lemma ceil_div_nat:
  fixes k :: nat
  assumes "0 < k"
  shows "\<lceil>real n / real k\<rceil> = int ((n + k - 1) div k)"
proof (rule ceiling_unique)
  define m where "m = (n + k - 1) div k"
  have up: "n \<le> m * k" using lt_ceil_div [OF assms, of m n] unfolding m_def by simp
  then have "real n \<le> real m * real k" by (metis of_nat_le_iff of_nat_mult)
  then show "real n / real k \<le> of_int (int ((n + k - 1) div k))"
    using assms unfolding m_def by (simp add: pos_divide_le_eq)
  show "of_int (int ((n + k - 1) div k)) - 1 < real n / real k"
  proof (cases m)
    case 0
    have "(0::real) \<le> real n / real k" by simp
    then show ?thesis using 0 unfolding m_def by linarith
  next
    case (Suc j)
    then have "j * k < n" using lt_ceil_div [OF assms, of j n] unfolding m_def by simp
    then have "real j * real k < real n" by (metis of_nat_less_iff of_nat_mult)
    then have "real j < real n / real k" using assms by (simp add: pos_less_divide_eq)
    then show ?thesis using Suc unfolding m_def by simp
  qed
qed

text \<open>What one pass of each loop leaves, from any state of its counters.\<close>

lemma upt_shift_Cons: "[c..<c + length (x # xs)] = c # [c + 1..<c + 1 + length xs]"
  by (simp add: upt_conv_Cons del: upt_Suc)

lemma mod_int_zero_iff: "(int c mod int k = 0) = (c mod k = 0)"
  by (metis of_nat_eq_0_iff zmod_int)

lemma frames_loop_sampling:
  fixes k :: nat
  assumes "0 < k"
  shows "\<exists>st'. frames_loop video_id dir (int k) utcnow frames st = Inr st'
           \<and> frame_count st' = frame_count st + length frames
           \<and> saved_count st' = saved_count st
                + length (filter (\<lambda>i. i mod k = 0)
                            [frame_count st..<frame_count st + length frames])
           \<and> map (\<lambda>d. map_of d ''frame_number'') (frame_docs st')
               = map (\<lambda>d. map_of d ''frame_number'') (frame_docs st)
                 @ map (\<lambda>i. Some (PInt (int i)))
                     (filter (\<lambda>i. i mod k = 0)
                        [frame_count st..<frame_count st + length frames])"
proof (induction frames arbitrary: st)
  case Nil
  show ?case by simp
next
  case (Cons frame rest)
  show ?case
  proof (cases "frame_count st mod k = 0")
    case True
    let ?filename = "os_path_join dir (''frame_'' @ zero_pad 4 (saved_count st) @ ''.jpg'')"
    let ?doc = "[(''video_id'', PStr video_id),
                    (''frame_number'', PInt (int (frame_count st))),
                    (''frame_path'', PStr ?filename),
                    (''face_path'', PNone),
                    (''face_found'', PBool False),
                    (''created_at'', PStr (utcnow (frame_count st)))]"
    let ?st1 = "st\<lparr>frame_files := frame_files st @ [(?filename, frame)],
                  frame_docs := frame_docs st @ [?doc],
                  saved_count := saved_count st + 1,
                  frame_count := frame_count st + 1\<rparr>"
    have step: "frames_loop video_id dir (int k) utcnow (frame # rest) st
                  = frames_loop video_id dir (int k) utcnow rest ?st1"
      using assms True by (simp add: mod_int_zero_iff Let_def)
    from Cons.IH [of ?st1] obtain st' where
      "frames_loop video_id dir (int k) utcnow rest ?st1 = Inr st'"
      "frame_count st' = frame_count ?st1 + length rest"
      "saved_count st' = saved_count ?st1
                + length (filter (\<lambda>i. i mod k = 0)
                            [frame_count ?st1..<frame_count ?st1 + length rest])"
      "map (\<lambda>d. map_of d ''frame_number'') (frame_docs st')
               = map (\<lambda>d. map_of d ''frame_number'') (frame_docs ?st1)
                 @ map (\<lambda>i. Some (PInt (int i)))
                     (filter (\<lambda>i. i mod k = 0)
                        [frame_count ?st1..<frame_count ?st1 + length rest])"
      by blast
    then show ?thesis
      unfolding step upt_shift_Cons using True by (simp del: upt_Suc)
  next
    case False
    let ?st1 = "st\<lparr>frame_count := frame_count st + 1\<rparr>"
    have step: "frames_loop video_id dir (int k) utcnow (frame # rest) st
                  = frames_loop video_id dir (int k) utcnow rest ?st1"
      using assms False by (simp add: mod_int_zero_iff)
    from Cons.IH [of ?st1] obtain st' where
      "frames_loop video_id dir (int k) utcnow rest ?st1 = Inr st'"
      "frame_count st' = frame_count ?st1 + length rest"
      "saved_count st' = saved_count ?st1
                + length (filter (\<lambda>i. i mod k = 0)
                            [frame_count ?st1..<frame_count ?st1 + length rest])"
      "map (\<lambda>d. map_of d ''frame_number'') (frame_docs st')
               = map (\<lambda>d. map_of d ''frame_number'') (frame_docs ?st1)
                 @ map (\<lambda>i. Some (PInt (int i)))
                     (filter (\<lambda>i. i mod k = 0)
                        [frame_count ?st1..<frame_count ?st1 + length rest])"
      by blast
    then show ?thesis
      unfolding step upt_shift_Cons using False by (simp del: upt_Suc)
  qed
qed

lemma faces_loop_sampling:
  assumes "\<forall>f\<in>set frames. \<exists>bs. detect f = Inr bs"
  shows "\<exists>st'. faces_loop detect dir frames st = Inr st'
           \<and> frames_processed st' = frames_processed st + length frames
           \<and> detector_calls st' = detector_calls st
                @ filter (\<lambda>i. i mod frame_interval = 0)
                    [frames_processed st..<frames_processed st + length frames]"
  using assms
proof (induction frames arbitrary: st)
  case Nil
  show ?case by simp
next
  case (Cons frame rest)
  then obtain faces where faces: "detect frame = Inr faces" by auto
  have rest: "\<forall>f\<in>set rest. \<exists>bs. detect f = Inr bs" using Cons.prems by simp
  show ?case
  proof (cases "frames_processed st mod frame_interval = 0")
    case True
    let ?st1 = "st\<lparr>detector_calls := detector_calls st @ [frames_processed st]\<rparr>"
    let ?st2 = "if length faces > 0
                then ?st1\<lparr>faces_found := faces_found ?st1 + length faces,
                          written := written ?st1
                             @ save_faces dir (frames_processed ?st1) frame faces\<rparr>
                else ?st1"
    let ?st3 = "?st2\<lparr>frames_processed := frames_processed ?st2 + 1\<rparr>"
    have step: "faces_loop detect dir (frame # rest) st = faces_loop detect dir rest ?st3"
      using True faces by (simp add: Let_def)
    have p: "frames_processed ?st3 = frames_processed st + 1"
      and d: "detector_calls ?st3 = detector_calls st @ [frames_processed st]"
      by simp_all
    from Cons.IH [OF rest, of ?st3] obtain st' where
      "faces_loop detect dir rest ?st3 = Inr st'"
      "frames_processed st' = frames_processed ?st3 + length rest"
      "detector_calls st' = detector_calls ?st3
                @ filter (\<lambda>i. i mod frame_interval = 0)
                    [frames_processed ?st3..<frames_processed ?st3 + length rest]"
      by blast
    then show ?thesis
      unfolding step upt_shift_Cons p d using True by (simp del: upt_Suc)
  next
    case False
    let ?st1 = "st\<lparr>frames_processed := frames_processed st + 1\<rparr>"
    have step: "faces_loop detect dir (frame # rest) st = faces_loop detect dir rest ?st1"
      using False by simp
    from Cons.IH [OF rest, of ?st1] obtain st' where
      "faces_loop detect dir rest ?st1 = Inr st'"
      "frames_processed st' = frames_processed ?st1 + length rest"
      "detector_calls st' = detector_calls ?st1
                @ filter (\<lambda>i. i mod frame_interval = 0)
                    [frames_processed ?st1..<frames_processed ?st1 + length rest]"
      by blast
    then show ?thesis
      unfolding step upt_shift_Cons using False by (simp del: upt_Suc)
  qed
qed

text \<open>
  Claim C5. On a source of N frames and with an interval k of at least 1, the sampler
  (\<open>extract_frames\<close>) takes exactly \<open>ceil(N / k)\<close> frames, those with the indices
  0, k, 2k, ... in increasing order, and returns after the last frame of the stream.
  The face stage, whose interval is the default 30, hands exactly the frames
  0, 30, 60, ... to the detector, \<open>ceil(N / 30)\<close> of them, as long as the detector
  does not raise.
\<close>

theorem frame_sampler_samples:
  fixes k :: nat
  assumes "1 \<le> k"
  shows "(let cap = \<lparr>cap_setup_error = None, cap_opened = True,
                     cap_frame_count = announced, cap_frames = frames\<rparr>
          in (case extract_frames assets_dir cap video_id utcnow (int k) of
                (saved, st) \<Rightarrow>
                  saved = \<lceil>real (length frames) / real k\<rceil>
                  \<and> frame_count st = length frames
                  \<and> map (\<lambda>d. map_of d ''frame_number'') (frame_docs st)
                      = map (\<lambda>j. Some (PInt (int (j * k))))
                          [0..<nat \<lceil>real (length frames) / real k\<rceil>])
             \<and> ((\<forall>f\<in>set frames. \<exists>bs. detect f = Inr bs) \<longrightarrow>
                  (case extract_faces cap detect video_id of
                     (result, st) \<Rightarrow>
                       detector_calls st
                         = map (\<lambda>j. j * 30) [0..<nat \<lceil>real (length frames) / 30\<rceil>])))"
proof -
  have k: "0 < k" using assms by simp
  let ?dir = "os_path_join (os_path_join assets_dir (''video_'' @ video_id)) ''frames''"
  obtain st' where a:
      "frames_loop video_id ?dir (int k) utcnow frames frames_init = Inr st'"
      "frame_count st' = frame_count (frames_init :: 'a frames_state) + length frames"
      "saved_count st' = saved_count (frames_init :: 'a frames_state)
                + length (filter (\<lambda>i. i mod k = 0)
                            [frame_count (frames_init :: 'a frames_state)..<
                             frame_count (frames_init :: 'a frames_state) + length frames])"
      "map (\<lambda>d. map_of d ''frame_number'') (frame_docs st')
               = map (\<lambda>d. map_of d ''frame_number'') (frame_docs (frames_init :: 'a frames_state))
                 @ map (\<lambda>i. Some (PInt (int i)))
                     (filter (\<lambda>i. i mod k = 0)
                        [frame_count (frames_init :: 'a frames_state)..<
                         frame_count (frames_init :: 'a frames_state) + length frames])"
    using frames_loop_sampling [OF k, of video_id ?dir utcnow frames frames_init] by blast
  have c: "nat \<lceil>real (length frames) / real k\<rceil> = (length frames + k - 1) div k"
    using ceil_div_nat [OF k, of "length frames"] by simp
  have first: "(case extract_frames assets_dir \<lparr>cap_setup_error = None, cap_opened = True,
                     cap_frame_count = announced, cap_frames = frames\<rparr> video_id utcnow (int k) of
                (saved, st) \<Rightarrow>
                  saved = \<lceil>real (length frames) / real k\<rceil>
                  \<and> frame_count st = length frames
                  \<and> map (\<lambda>d. map_of d ''frame_number'') (frame_docs st)
                      = map (\<lambda>j. Some (PInt (int (j * k))))
                          [0..<nat \<lceil>real (length frames) / real k\<rceil>])"
    using a unfolding extract_frames_def c
    by (simp add: frames_init_def multiples_below [OF k] ceil_div_nat [OF k] o_def)
  have second: "(case extract_faces \<lparr>cap_setup_error = None, cap_opened = True,
                     cap_frame_count = announced, cap_frames = frames\<rparr> detect video_id of
                     (result, st) \<Rightarrow>
                       detector_calls st
                         = map (\<lambda>j. j * 30) [0..<nat \<lceil>real (length frames) / 30\<rceil>])"
    if h: "\<forall>f\<in>set frames. \<exists>bs. detect f = Inr bs"
  proof -
    obtain st2 where b:
      "faces_loop detect (os_path_join FRAMES_DIR video_id) frames faces_init = Inr st2"
      "detector_calls st2 = detector_calls (faces_init :: 'a faces_state)
                @ filter (\<lambda>i. i mod frame_interval = 0)
                    [frames_processed (faces_init :: 'a faces_state)..<
                     frames_processed (faces_init :: 'a faces_state) + length frames]"
      using faces_loop_sampling [OF h, of "os_path_join FRAMES_DIR video_id" faces_init] by blast
    have c30: "nat \<lceil>real (length frames) / 30\<rceil> = (length frames + 30 - 1) div 30"
      using ceil_div_nat [of 30 "length frames"] by simp
    show ?thesis
      using b unfolding extract_faces_def c30
      by (simp add: faces_init_def frame_interval_def multiples_below [of 30, simplified])
  qed
  show ?thesis unfolding Let_def using first second by blast
qed

theorem frame_sampler_samples_witness:
  "(1::nat) \<le> 3
   \<and> fst (extract_frames ''assets''
             \<lparr>cap_setup_error = None, cap_opened = True, cap_frame_count = 7,
              cap_frames = ''abcdefg''\<rparr> ''v'' (\<lambda>n. ''t'') 3) = 3
   \<and> map (\<lambda>d. map_of d ''frame_number'')
         (frame_docs (snd (extract_frames ''assets''
             \<lparr>cap_setup_error = None, cap_opened = True, cap_frame_count = 7,
              cap_frames = ''abcdefg''\<rparr> ''v'' (\<lambda>n. ''t'') 3)))
       = [Some (PInt 0), Some (PInt 3), Some (PInt 6)]
   \<and> detector_calls (snd (extract_faces
             \<lparr>cap_setup_error = None, cap_opened = True, cap_frame_count = 7,
              cap_frames = ''abcdefg''\<rparr> (\<lambda>f. Inr []) ''v'')) = [0]"
proof -
  have k: "(1::nat) \<le> 3" by simp
  have c: "\<lceil>(7::real) / 3\<rceil> = 3" "\<lceil>(7::real) / 30\<rceil> = 1" by simp_all
  have l: "[0..<3] = [0, 1, 2::nat]" "[0..<1] = [0::nat]" by (simp_all add: upt_rec)
  show ?thesis
    using frame_sampler_samples [OF k, of 7 "''abcdefg''" "''assets''" "''v''" "\<lambda>n. ''t''"
            "\<lambda>f. Inr []"]
    by (simp add: Let_def split_beta c l)
qed

section \<open>Properties of the face stage\<close>

text \<open>
  Whenever the stage succeeds, \<open>processed_frames\<close> is the number of frames read, while
  the frames handed to the detector are the multiples of 30 among their indices.
\<close>

lemma extract_faces_reports_frames_read:
  assumes "cap_setup_error cap = None"
      and "\<forall>f\<in>set (cap_frames cap). \<exists>bs. detect f = Inr bs"
  shows "map_of (fst (extract_faces cap detect video_id)) ''processed_frames''
           = Some (PInt (int (length (cap_frames cap))))"
    and "detector_calls (snd (extract_faces cap detect video_id))
           = filter (\<lambda>i. i mod 30 = 0) [0..<length (cap_frames cap)]"
proof -
  obtain st where b:
      "faces_loop detect (os_path_join FRAMES_DIR video_id) (cap_frames cap) faces_init = Inr st"
      "frames_processed st
         = frames_processed (faces_init :: 'a faces_state) + length (cap_frames cap)"
      "detector_calls st = detector_calls (faces_init :: 'a faces_state)
                @ filter (\<lambda>i. i mod frame_interval = 0)
                    [frames_processed (faces_init :: 'a faces_state)..<
                     frames_processed (faces_init :: 'a faces_state)
                       + length (cap_frames cap)]"
    using faces_loop_sampling [OF assms(2), of "os_path_join FRAMES_DIR video_id" faces_init]
    by blast
  show "map_of (fst (extract_faces cap detect video_id)) ''processed_frames''
           = Some (PInt (int (length (cap_frames cap))))"
    using b assms(1) unfolding extract_faces_def by (simp add: faces_init_def)
  show "detector_calls (snd (extract_faces cap detect video_id))
           = filter (\<lambda>i. i mod 30 = 0) [0..<length (cap_frames cap)]"
    using b assms(1) unfolding extract_faces_def
    by (simp add: faces_init_def frame_interval_def)
qed

text \<open>
  Claim C6, at the scenario of the specification. The stage discards the frame without
  a face (frame 30), writes the two frames with faces once each and one crop per box
  (three crops), and counts three faces. The detector sees three frames (0, 30 and 60),
  but \<open>processed_frames\<close> is 90, the number of frames read: the loop uses one counter
  both as the index of the frame and as the number it reports.
\<close>

theorem face_stage_scenario:
  "extract_faces scenario_capture scenario_detect ''v1'' =
     ([(''total_frames'', PInt 90),
       (''processed_frames'', PInt 90),
       (''faces_detected'', PInt 3),
       (''frames_dir'', PStr ''/home/farkhane/mini-rag/src/assets/frames/v1''),
       (''success'', PBool True)],
      \<lparr>frames_processed = 90, faces_found = 3,
       written =
         [(''/home/farkhane/mini-rag/src/assets/frames/v1/frame_000000.jpg'', Full 0),
          (''/home/farkhane/mini-rag/src/assets/frames/v1/face_000000_0.jpg'',
             Cropped 0 (100, 80, 64, 64)),
          (''/home/farkhane/mini-rag/src/assets/frames/v1/frame_000060.jpg'', Full 60),
          (''/home/farkhane/mini-rag/src/assets/frames/v1/face_000060_0.jpg'',
             Cropped 60 (40, 50, 60, 60)),
          (''/home/farkhane/mini-rag/src/assets/frames/v1/face_000060_1.jpg'',
             Cropped 60 (300, 120, 72, 72))],
       detector_calls = [0, 30, 60]\<rparr>)"
  by code_simp

section \<open>Properties of the face crop\<close>

text \<open>
  The face stage of the pipeline writes each detected box as it is, without a margin;
  the margin is \<open>extract_face\<close>'s.
\<close>

lemma save_faces_contents:
  "map snd (save_faces dir n frame faces) = Full frame # map (Cropped frame) faces"
proof -
  have "map (\<lambda>p. Cropped frame (snd p)) (enumerate 0 faces)
          = map (Cropped frame) (map snd (enumerate 0 faces))"
    by (simp only: map_map o_def)
  also have "\<dots> = map (Cropped frame) faces"
    by (simp only: map_snd_enumerate)
  finally show ?thesis unfolding save_faces_def by (simp add: split_beta o_def)
qed



section \<open>Properties of the pitch analysis\<close>

lemma analyze_pitch_returns: "\<exists>result. analyze_pitch to_pitch = Inr result"
  unfolding analyze_pitch_def by (cases "analyze_pitch_body to_pitch") simp_all

lemma analyze_pitch_unvoiced:
  assumes "\<forall>v\<in>set pitch_values. v \<le> 0"
  shows "analyze_pitch (Inr pitch_values) =
           Inr [(''average_pitch'', PInt 0), (''min_pitch'', PInt 0), (''max_pitch'', PInt 0),
                (''pitch_std'', PInt 0), (''emotion'', PStr ''Unknown - No voice detected''),
                (''pitch_analysis'', PStr ''No voiced segments detected'')]"
proof -
  have "filter (\<lambda>v. v > 0) pitch_values = []" using assms by (auto simp: filter_empty_conv)
  then show ?thesis unfolding analyze_pitch_def analyze_pitch_body_def by (simp add: Let_def)
qed

lemma analyze_pitch_failure:
  "analyze_pitch (Inl e) =
           Inr [(''average_pitch'', PInt 0), (''min_pitch'', PInt 0), (''max_pitch'', PInt 0),
                (''pitch_std'', PInt 0), (''emotion'', PStr ''Error in analysis''),
                (''pitch_analysis'', PStr (''Error: '' @ e))]"
  unfolding analyze_pitch_def analyze_pitch_body_def by simp

lemma map_of_dict_update_other:
  "k \<notin> fst ` set u \<Longrightarrow> map_of (dict_update d u) k = map_of d k"
  unfolding dict_update_def
proof (induction u arbitrary: d)
  case Nil
  show ?case by simp
next
  case (Cons p u)
  obtain a b where p: "p = (a, b)" by (cases p)
  have "map_of (fold (\<lambda>(k, v). AList.update k v) u (AList.update a b d)) k
          = map_of (AList.update a b d) k"
    using Cons by simp
  then show ?case using Cons.prems p by (simp add: update_conv')
qed

lemma analyze_pitch_keys:
  "analyze_pitch to_pitch = Inr result \<Longrightarrow>
   map fst result = [''average_pitch'', ''min_pitch'', ''max_pitch'', ''pitch_std'',
                     ''emotion'', ''pitch_analysis'']"
  unfolding analyze_pitch_def analyze_pitch_body_def
  by (auto simp add: Let_def split: sum.splits if_splits)

text \<open>
  Claim C8. Pitch analysis returns on every input, never raising: for a contour without
  a voiced sample it returns the sentinel with all four statistics zero and the label
  "no voice detected"; when the extraction fails it returns a result that carries the
  error message; and the parent (\<open>process_video_audio\<close>) completes without an error
  whatever the pitch analysis met.
\<close>

theorem pitch_analysis_never_fails:
  "(\<exists>result. analyze_pitch to_pitch = Inr result)
   \<and> ((\<forall>v\<in>set pitch_values. v \<le> 0) \<longrightarrow>
        analyze_pitch (Inr pitch_values) =
           Inr [(''average_pitch'', PInt 0), (''min_pitch'', PInt 0), (''max_pitch'', PInt 0),
                (''pitch_std'', PInt 0), (''emotion'', PStr ''Unknown - No voice detected''),
                (''pitch_analysis'', PStr ''No voiced segments detected'')])
   \<and> analyze_pitch (Inl e) =
           Inr [(''average_pitch'', PInt 0), (''min_pitch'', PInt 0), (''max_pitch'', PInt 0),
                (''pitch_std'', PInt 0), (''emotion'', PStr ''Error in analysis''),
                (''pitch_analysis'', PStr (''Error: '' @ e))]
   \<and> (let result = process_video_audio (Inr audio_path)
                      (Inr [(''segments'', segments),
                            (''formatted_transcription'', formatted_transcription),
                            (''transcription_text'', transcription_text),
                            (''transcription_path'', transcription_path),
                            (''language'', language),
                            (''total_segments'', total_segments)])
                      to_pitch video_id
       in map_of result ''error'' = Some PNone
          \<and> map_of result ''audio_extracted'' = Some (PBool True)
          \<and> map_of result ''transcription_completed'' = Some (PBool True)
          \<and> map_of result ''pitch_analysis_completed'' = Some (PBool True))"
proof -
  obtain pr where pr: "analyze_pitch to_pitch = Inr pr" using analyze_pitch_returns by blast
  have keys: "fst ` set pr = {''average_pitch'', ''min_pitch'', ''max_pitch'', ''pitch_std'',
                     ''emotion'', ''pitch_analysis''}"
    using analyze_pitch_keys [OF pr] by (metis list.set_map list.simps(15) empty_set)
  have parent: "(let result = process_video_audio (Inr audio_path)
                      (Inr [(''segments'', segments),
                            (''formatted_transcription'', formatted_transcription),
                            (''transcription_text'', transcription_text),
                            (''transcription_path'', transcription_path),
                            (''language'', language),
                            (''total_segments'', total_segments)])
                      to_pitch video_id
       in map_of result ''error'' = Some PNone
          \<and> map_of result ''audio_extracted'' = Some (PBool True)
          \<and> map_of result ''transcription_completed'' = Some (PBool True)
          \<and> map_of result ''pitch_analysis_completed'' = Some (PBool True))"
    unfolding process_video_audio_def Let_def pr
    by (simp add: update_conv' map_of_dict_update_other keys)
  show ?thesis
    using analyze_pitch_returns analyze_pitch_unvoiced analyze_pitch_failure parent by blast
qed

theorem pitch_analysis_never_fails_witness:
  "analyze_pitch (Inr [0, 0, 0]) =
         Inr [(''average_pitch'', PInt 0), (''min_pitch'', PInt 0), (''max_pitch'', PInt 0),
              (''pitch_std'', PInt 0), (''emotion'', PStr ''Unknown - No voice detected''),
              (''pitch_analysis'', PStr ''No voiced segments detected'')]"
proof -
  have h: "\<forall>v\<in>set [0, 0, 0 :: real]. v \<le> 0" by simp
  from pitch_analysis_never_fails [where pitch_values = "[0, 0, 0]",
          THEN conjunct2, THEN conjunct1, THEN mp, OF h]
  show ?thesis .
qed

section \<open>Properties of the store and of the pipeline\<close>

text \<open>What an update leaves in a record.\<close>

lemma map_of_dict_update_single:
  "map_of (dict_update d [(k, v)]) k' = (if k' = k then Some v else map_of d k')"
  unfolding dict_update_def by (simp add: update_conv')

lemma update_video_in_db_present:
  "db video_id = Some video_data \<Longrightarrow>
   fst (update_video_in_db db video_id u) = db(video_id \<mapsto> dict_update video_data u)"
  unfolding update_video_in_db_def by simp

lemma update_video_in_db_absent:
  "db video_id = None \<Longrightarrow> fst (update_video_in_db db video_id u) = db"
  unfolding update_video_in_db_def by simp

text \<open>A stage returns one of two shapes of result, and each has its update.\<close>

lemma extract_faces_cases:
  "(\<exists>e. fst (extract_faces cap detect video_id) = stage_failure e)
   \<or> (\<exists>processed found. fst (extract_faces cap detect video_id) =
         [(''total_frames'', PInt (cap_frame_count cap)),
          (''processed_frames'', PInt (int processed)),
          (''faces_detected'', PInt (int found)),
          (''frames_dir'', PStr (os_path_join FRAMES_DIR video_id)),
          (''success'', PBool True)])"
  unfolding extract_faces_def Let_def
  by (auto split: option.splits sum.splits prod.splits)



lemma face_data_success:
  "face_data [(''total_frames'', a), (''processed_frames'', b), (''faces_detected'', c),
              (''frames_dir'', d), (''success'', PBool True)] now =
     Inr [(''face_extraction'',
           PDict [(''status'', PStr ''completed''), (''total_frames'', a),
                  (''processed_frames'', b), (''faces_detected'', c), (''frames_dir'', d),
                  (''completed_at'', PStr now)])]"
  unfolding face_data_def with_item_def getitem_def by simp

lemma speech_data_failure:
  "speech_data (stage_failure e) now =
     Inr [(''speech_transcription'',
           PDict [(''status'', PStr ''failed''), (''error'', PStr e), (''failed_at'', PStr now)])]"
  unfolding speech_data_def stage_failure_def with_item_def getitem_def by simp


lemma map_of_dict_update: "map_of (dict_update d u) = map_of d ++ map_of (rev u)"
  unfolding dict_update_def
proof (induction u arbitrary: d)
  case Nil
  show ?case by simp
next
  case (Cons p u)
  obtain a b where p: "p = (a, b)" by (cases p)
  have "map_of (fold (\<lambda>(k, v). AList.update k v) u (AList.update a b d))
          = map_of (AList.update a b d) ++ map_of (rev u)"
    using Cons by simp
  also have "\<dots> = map_of d ++ map_of (rev u @ [(a, b)])"
    by (simp add: update_conv' map_add_def fun_eq_iff split: option.splits)
  finally show ?case using p by simp
qed

lemma dict_update_nonempty: "u \<noteq> [] \<Longrightarrow> dict_update d u \<noteq> []"
proof -
  assume "u \<noteq> []"
  then obtain k v where "map_of (rev u) k = Some v"
    by (metis list.exhaust map_of_Cons_code(2) rev_is_Nil_conv surj_pair)
  then have "map_of (dict_update d u) k = Some v" by (simp add: map_of_dict_update)
  then show ?thesis by auto
qed

lemma final_update_status:
  "map_of (final_update fs ss now) ''status'' = Some (aggregate fs ss)"
  "map_of (final_update fs ss now) ''face_extraction'' = None"
  "map_of (final_update fs ss now) ''speech_transcription'' = None"
  "map_of (rev (final_update fs ss now)) ''status'' = Some (aggregate fs ss)"
  "map_of (rev (final_update fs ss now)) ''face_extraction'' = None"
  "map_of (rev (final_update fs ss now)) ''speech_transcription'' = None"
  "final_update fs ss now \<noteq> []"
  unfolding final_update_def aggregate_def by simp_all

lemma update_overall_status_present:
  assumes "db video_id = Some video_data"
      and "map_of video_data ''face_extraction'' = Some (PDict fd)"
      and "map_of fd ''status'' = Some fs"
      and "map_of video_data ''speech_transcription'' = Some (PDict sd)"
      and "map_of sd ''status'' = Some ss"
  shows "update_overall_status db video_id now
           = Inr (db(video_id \<mapsto> dict_update video_data (final_update fs ss now)))"
proof -
  have ne: "video_data \<noteq> []" using assms(2) by auto
  show ?thesis
    unfolding update_overall_status_def get_video_from_db_def
    using assms ne
    by (simp add: with_item_def getitem_def subscript_def update_video_in_db_present)
qed

text \<open>A run on a record that exists: the store it leaves.\<close>

lemma pipeline_body:
  assumes "db video_id = Some video_data"
      and "face_data (fst (extract_faces (video_capture w file_path) (detectMultiScale w)
                             video_id)) (t_face clk)
             = Inr [(''face_extraction'', PDict fd)]"
      and "map_of fd ''status'' = Some fs"
      and "speech_data (extract_and_transcribe_speech (speech_of w file_path) video_id)
             (t_speech clk)
             = Inr [(''speech_transcription'', PDict sd)]"
      and "map_of sd ''status'' = Some ss"
  shows "process_video_complete_body w clk db video_id file_path
           = Inr (db(video_id \<mapsto>
                    dict_update
                      (dict_update
                         (dict_update
                            (dict_update video_data
                               [(''status'', PStr ''processing''),
                                (''face_extraction.status'', PStr ''processing''),
                                (''speech_transcription.status'', PStr ''processing'')])
                            [(''face_extraction'', PDict fd)])
                         [(''speech_transcription'', PDict sd)])
                      (final_update fs ss (t_final clk))))"
proof -
  let ?r1 = "dict_update video_data
               [(''status'', PStr ''processing''),
                (''face_extraction.status'', PStr ''processing''),
                (''speech_transcription.status'', PStr ''processing'')]"
  let ?r2 = "dict_update ?r1 [(''face_extraction'', PDict fd)]"
  let ?r3 = "dict_update ?r2 [(''speech_transcription'', PDict sd)]"
  have d1: "start_processing db video_id = db(video_id \<mapsto> ?r1)"
    unfolding start_processing_def using assms(1) by (simp add: update_video_in_db_present)
  have d2: "persist_stage (db(video_id \<mapsto> ?r1)) video_id (Inr [(''face_extraction'', PDict fd)])
              = Inr (db(video_id \<mapsto> ?r2))"
    unfolding persist_stage_def by (simp add: update_video_in_db_present)
  have d3: "persist_stage (db(video_id \<mapsto> ?r2)) video_id
              (Inr [(''speech_transcription'', PDict sd)])
              = Inr (db(video_id \<mapsto> ?r3))"
    unfolding persist_stage_def by (simp add: update_video_in_db_present)
  have f3: "map_of ?r3 ''face_extraction'' = Some (PDict fd)"
    and s3: "map_of ?r3 ''speech_transcription'' = Some (PDict sd)"
    by (simp_all add: map_of_dict_update)
  have d4: "update_overall_status (db(video_id \<mapsto> ?r3)) video_id (t_final clk)
              = Inr (db(video_id \<mapsto> dict_update ?r3 (final_update fs ss (t_final clk))))"
    using update_overall_status_present [of "db(video_id \<mapsto> ?r3)" video_id ?r3 fd fs sd ss
            "t_final clk"] f3 s3 assms(3,5)
    by simp
  show ?thesis
    unfolding process_video_complete_body_def Let_def d1 assms(2) d2 assms(4)
    by (simp add: d3 d4)
qed



lemma final_record_fields:
  "map_of (dict_update (dict_update (dict_update r1 [(''face_extraction'', PDict fd)])
                          [(''speech_transcription'', PDict sd)])
             (final_update fs ss now)) ''status'' = Some (aggregate fs ss)"
  "map_of (dict_update (dict_update (dict_update r1 [(''face_extraction'', PDict fd)])
                          [(''speech_transcription'', PDict sd)])
             (final_update fs ss now)) ''face_extraction'' = Some (PDict fd)"
  "map_of (dict_update (dict_update (dict_update r1 [(''face_extraction'', PDict fd)])
                          [(''speech_transcription'', PDict sd)])
             (final_update fs ss now)) ''speech_transcription'' = Some (PDict sd)"
  by (simp_all add: map_of_dict_update map_add_def final_update_status)

lemma pipeline_final_state:
  assumes "db video_id = Some video_data"
      and "face_data (fst (extract_faces (video_capture w file_path) (detectMultiScale w)
                             video_id)) (t_face clk)
             = Inr [(''face_extraction'', PDict fd)]"
      and "map_of fd ''status'' = Some fs"
      and "speech_data (extract_and_transcribe_speech (speech_of w file_path) video_id)
             (t_speech clk)
             = Inr [(''speech_transcription'', PDict sd)]"
      and "map_of sd ''status'' = Some ss"
  shows "\<exists>db'. process_video_complete w clk db video_id file_path = Inr db'
           \<and> overall_status db' video_id = Some (aggregate fs ss)
           \<and> stage_of db' video_id ''face_extraction'' = Some fd
           \<and> stage_of db' video_id ''speech_transcription'' = Some sd"
proof -
  note body = pipeline_body [where db = db and video_id = video_id and w = w and clk = clk
                and file_path = file_path, OF assms]
  show ?thesis
    unfolding process_video_complete_def body
    by (simp add: overall_status_def stage_of_def final_record_fields)
qed

text \<open>
  Claim C1. Step 4 of a run, on a record whose two stages carry terminal statuses:
  completed and completed give the overall status completed, failed and failed give
  failed, and each mixed pair gives partial success; the stage statuses stay as they were.
\<close>

theorem overall_status_truth_table:
  assumes "stage_status db video_id ''face_extraction'' = Some face_status"
      and "stage_status db video_id ''speech_transcription'' = Some speech_status"
  shows "\<exists>db'. update_overall_status db video_id now = Inr db'
           \<and> stage_status db' video_id ''face_extraction'' = Some face_status
           \<and> stage_status db' video_id ''speech_transcription'' = Some speech_status
           \<and> (face_status = PStr ''completed'' \<and> speech_status = PStr ''completed''
                \<longrightarrow> overall_status db' video_id = Some (PStr ''completed''))
           \<and> (face_status = PStr ''failed'' \<and> speech_status = PStr ''failed''
                \<longrightarrow> overall_status db' video_id = Some (PStr ''failed''))
           \<and> (face_status = PStr ''completed'' \<and> speech_status = PStr ''failed''
                \<longrightarrow> overall_status db' video_id = Some (PStr ''partial_success''))
           \<and> (face_status = PStr ''failed'' \<and> speech_status = PStr ''completed''
                \<longrightarrow> overall_status db' video_id = Some (PStr ''partial_success''))"
proof -
  from assms obtain video_data fd sd where r:
      "db video_id = Some video_data"
      "map_of video_data ''face_extraction'' = Some (PDict fd)"
      "map_of fd ''status'' = Some face_status"
      "map_of video_data ''speech_transcription'' = Some (PDict sd)"
      "map_of sd ''status'' = Some speech_status"
    unfolding stage_status_def stage_of_def
    by (auto split: option.splits pyval.splits)
  note upd = update_overall_status_present [where db = db and video_id = video_id, OF r]
  show ?thesis
    unfolding upd
    using r
    by (simp add: stage_status_def stage_of_def overall_status_def map_of_dict_update
          map_add_def final_update_status aggregate_def)
qed

theorem overall_status_truth_table_witness:
  "stage_status (truth_table_db ''completed'' ''failed'') ''v1'' ''face_extraction''
     = Some (PStr ''completed'')
   \<and> stage_status (truth_table_db ''completed'' ''failed'') ''v1'' ''speech_transcription''
     = Some (PStr ''failed'')
   \<and> (\<exists>db'. update_overall_status (truth_table_db ''completed'' ''failed'') ''v1'' ''12:00:41''
               = Inr db'
            \<and> overall_status db' ''v1'' = Some (PStr ''partial_success''))"
proof -
  have f: "stage_status (truth_table_db ''completed'' ''failed'') ''v1'' ''face_extraction''
             = Some (PStr ''completed'')"
    by (simp add: truth_table_db_def stage_status_def stage_of_def)
  have s: "stage_status (truth_table_db ''completed'' ''failed'') ''v1'' ''speech_transcription''
             = Some (PStr ''failed'')"
    by (simp add: truth_table_db_def stage_status_def stage_of_def)
  show ?thesis
    using overall_status_truth_table [OF f s, of "''12:00:41''"] f s by auto
qed

text \<open>
  Claim C2. When the face stage completes and the audio extraction of the speech stage
  raises, the run returns normally and leaves the speech stage failed with the message
  of the exception, the face stage completed with its outcome as the stage returned it,
  and the overall status partial success.
\<close>

theorem speech_failure_is_local:
  assumes "db video_id = Some video_data"
      and "map_of (fst (extract_faces (video_capture w file_path) (detectMultiScale w) video_id))
             ''success'' = Some (PBool True)"
      and "write_audiofile (speech_of w file_path) = Some message"
  shows "\<exists>db' face. process_video_complete w clk db video_id file_path = Inr db'
           \<and> stage_of db' video_id ''speech_transcription''
               = Some [(''status'', PStr ''failed''), (''error'', PStr message),
                       (''failed_at'', PStr (t_speech clk))]
           \<and> stage_of db' video_id ''face_extraction'' = Some face
           \<and> map_of face ''status'' = Some (PStr ''completed'')
           \<and> map_of face ''total_frames''
               = map_of (fst (extract_faces (video_capture w file_path) (detectMultiScale w)
                                video_id)) ''total_frames''
           \<and> map_of face ''processed_frames''
               = map_of (fst (extract_faces (video_capture w file_path) (detectMultiScale w)
                                video_id)) ''processed_frames''
           \<and> map_of face ''faces_detected''
               = map_of (fst (extract_faces (video_capture w file_path) (detectMultiScale w)
                                video_id)) ''faces_detected''
           \<and> map_of face ''frames_dir''
               = map_of (fst (extract_faces (video_capture w file_path) (detectMultiScale w)
                                video_id)) ''frames_dir''
           \<and> map_of face ''completed_at'' = Some (PStr (t_face clk))
           \<and> overall_status db' video_id = Some (PStr ''partial_success'')"
proof -
  let ?fr = "fst (extract_faces (video_capture w file_path) (detectMultiScale w) video_id)"
  from extract_faces_cases [of "video_capture w file_path" "detectMultiScale w" video_id]
  obtain processed found where fr:
    "?fr = [(''total_frames'', PInt (cap_frame_count (video_capture w file_path))),
            (''processed_frames'', PInt (int processed)),
            (''faces_detected'', PInt (int found)),
            (''frames_dir'', PStr (os_path_join FRAMES_DIR video_id)),
            (''success'', PBool True)]"
    using assms(2) by (auto simp add: stage_failure_def)
  let ?fd = "[(''status'', PStr ''completed''),
              (''total_frames'', PInt (cap_frame_count (video_capture w file_path))),
              (''processed_frames'', PInt (int processed)),
              (''faces_detected'', PInt (int found)),
              (''frames_dir'', PStr (os_path_join FRAMES_DIR video_id)),
              (''completed_at'', PStr (t_face clk))]"
  let ?sd = "[(''status'', PStr ''failed''), (''error'', PStr message),
              (''failed_at'', PStr (t_speech clk))]"
  have f: "face_data ?fr (t_face clk) = Inr [(''face_extraction'', PDict ?fd)]"
    unfolding fr by (rule face_data_success)
  have sp: "extract_and_transcribe_speech (speech_of w file_path) video_id
              = stage_failure message"
    unfolding extract_and_transcribe_speech_def Let_def using assms(3) by simp
  have s: "speech_data (extract_and_transcribe_speech (speech_of w file_path) video_id)
             (t_speech clk) = Inr [(''speech_transcription'', PDict ?sd)]"
    unfolding sp by (rule speech_data_failure)
  have fs: "map_of ?fd ''status'' = Some (PStr ''completed'')"
    and ss: "map_of ?sd ''status'' = Some (PStr ''failed'')"
    by simp_all
  from pipeline_final_state [where db = db and video_id = video_id and w = w and clk = clk
         and file_path = file_path, OF assms(1) f fs s ss]
  obtain db' where d:
      "process_video_complete w clk db video_id file_path = Inr db'"
      "overall_status db' video_id = Some (aggregate (PStr ''completed'') (PStr ''failed''))"
      "stage_of db' video_id ''face_extraction'' = Some ?fd"
      "stage_of db' video_id ''speech_transcription'' = Some ?sd"
    by blast
  have agg: "aggregate (PStr ''completed'') (PStr ''failed'') = PStr ''partial_success''"
    unfolding aggregate_def by simp
  show ?thesis
    using d unfolding agg fr by simp
qed

lemma scenario_faces_succeed:
  "map_of (fst (extract_faces scenario_capture scenario_detect ''v1'')) ''success''
     = Some (PBool True)"
  by code_simp

theorem speech_failure_is_local_witness:
  "scenario_db ''v1''
     = Some (video_record ''v1'' ''clip.mp4'' ''/videos/v1.mp4'' 1048576 ''12:00:00'')
   \<and> map_of (fst (extract_faces (video_capture scenario_world_no_audio ''/videos/v1.mp4'')
                     (detectMultiScale scenario_world_no_audio) ''v1'')) ''success''
       = Some (PBool True)
   \<and> write_audiofile (speech_of scenario_world_no_audio ''/videos/v1.mp4'')
       = Some ''no audio track''
   \<and> (\<exists>db'. process_video_complete scenario_world_no_audio scenario_clock scenario_db ''v1''
                ''/videos/v1.mp4'' = Inr db'
            \<and> stage_status db' ''v1'' ''speech_transcription'' = Some (PStr ''failed'')
            \<and> stage_status db' ''v1'' ''face_extraction'' = Some (PStr ''completed'')
            \<and> overall_status db' ''v1'' = Some (PStr ''partial_success''))"
proof -
  have a: "scenario_db ''v1''
     = Some (video_record ''v1'' ''clip.mp4'' ''/videos/v1.mp4'' 1048576 ''12:00:00'')"
    by (simp add: scenario_db_def)
  have b: "map_of (fst (extract_faces (video_capture scenario_world_no_audio ''/videos/v1.mp4'')
                     (detectMultiScale scenario_world_no_audio) ''v1'')) ''success''
       = Some (PBool True)"
    using scenario_faces_succeed by (simp add: scenario_world_no_audio_def)
  have c: "write_audiofile (speech_of scenario_world_no_audio ''/videos/v1.mp4'')
       = Some ''no audio track''"
    by (simp add: scenario_world_no_audio_def)
  show ?thesis
    using speech_failure_is_local [where db = scenario_db and video_id = "''v1''"
            and w = scenario_world_no_audio and file_path = "''/videos/v1.mp4''"
            and clk = scenario_clock, OF a b c] a b c
    by (auto simp add: stage_status_def)
qed

lemma persisted_states_last:
  "process_video_complete w clk db video_id file_path
     = Inr (last (persisted_states w clk db video_id file_path))"
  unfolding process_video_complete_def process_video_complete_body_def persisted_states_def
    Let_def
  by (auto split: sum.splits prod.splits)








end
